theory Spec2Isabelle
  imports Complex_Main
begin

section \<open>The dropout predictor of \<^verbatim>\<open>dropout_predictor.py\<close>\<close>

text \<open>
  The program is one Streamlit script. Its form widgets deliver Python \<^verbatim>\<open>int\<close>s (every
  \<^verbatim>\<open>number_input\<close> and the slider are built from integer bounds) and strings; they are
  \<^typ>\<open>int\<close> and \<^typ>\<open>string\<close> here. The score is a Python float that is built from the
  decimal literals \<^verbatim>\<open>0.45\<close>, \<^verbatim>\<open>0.30\<close>, ... by addition; it is modelled by the exact
  rational number those literals denote, \<^typ>\<open>rat\<close>, so that \<^verbatim>\<open>0.45\<close> is \<open>45/100\<close>. Every
  comparison that selects a branch of the scorer compares integers, or an integer with
  \<^verbatim>\<open>avg_monthly_balance * 0.3\<close>; the rounding of binary floating point is not part of the
  model.
\<close>

subsection \<open>The scorer, \<^verbatim>\<open>calculate_dropout_risk\<close> (lines 74 to 136)\<close>

text \<open>
  Each rule below is one \<^verbatim>\<open>if\<close>/\<^verbatim>\<open>elif\<close> block of the function. It takes the running
  \<^verbatim>\<open>risk_score\<close> and returns it after the block's \<^verbatim>\<open>risk_score += ...\<close>; a block with no
  matching branch leaves it as it is. The branches are in the order of the source.
\<close>

definition months_since_claim_rule :: "int \<Rightarrow> rat \<Rightarrow> rat" where
  "months_since_claim_rule months_since_claim risk_score =
     (if months_since_claim \<ge> 12 then risk_score + 45/100
      else if months_since_claim \<ge> 6 then risk_score + 30/100
      else if months_since_claim \<ge> 3 then risk_score + 15/100
      else risk_score)"

definition total_claims_rule :: "int \<Rightarrow> rat \<Rightarrow> rat" where
  "total_claims_rule total_claims risk_score =
     (if total_claims = 0 then risk_score + 15/100
      else if total_claims > 10 then risk_score + 20/100
      else if total_claims > 5 then risk_score + 10/100
      else risk_score)"

definition age_rule :: "int \<Rightarrow> rat \<Rightarrow> rat" where
  "age_rule age risk_score =
     (if age < 25 then risk_score + 12/100
      else if age > 65 then risk_score + 15/100
      else if age > 55 then risk_score + 8/100
      else risk_score)"

text \<open>The dictionary \<^verbatim>\<open>regional_risk\<close> and the lookup \<^verbatim>\<open>regional_risk.get(region, 0.10)\<close>.\<close>

definition regional_risk :: "string \<rightharpoonup> rat" where
  "regional_risk =
     map_of [(''Lagos'', 18/100), (''Enugu'', 16/100), (''Kaduna'', 14/100), (''Kano'', 12/100),
             (''Abuja'', 10/100), (''Jos'', 8/100), (''Ibadan'', 6/100), (''Port Harcourt'', 4/100)]"

definition regional_risk_rule :: "string \<Rightarrow> rat \<Rightarrow> rat" where
  "regional_risk_rule region risk_score =
     risk_score + (case regional_risk region of Some w \<Rightarrow> w | None \<Rightarrow> 10/100)"

definition claim_denial_rate_rule :: "int \<Rightarrow> rat \<Rightarrow> rat" where
  "claim_denial_rate_rule claim_denial_rate risk_score =
     (if claim_denial_rate > 25 then risk_score + 12/100
      else if claim_denial_rate > 15 then risk_score + 8/100
      else risk_score)"

definition clinic_visits_rule :: "int \<Rightarrow> rat \<Rightarrow> rat" where
  "clinic_visits_rule clinic_visits risk_score =
     (if clinic_visits < 2 then risk_score + 10/100
      else if clinic_visits > 15 then risk_score + 5/100
      else risk_score)"

definition distance_to_clinic_rule :: "int \<Rightarrow> rat \<Rightarrow> rat" where
  "distance_to_clinic_rule distance_to_clinic risk_score =
     (if distance_to_clinic > 50 then risk_score + 8/100 else risk_score)"

text \<open>
  Lines 126 to 129. The source tests \<^verbatim>\<open>< 2000\<close> first and \<^verbatim>\<open>< 1000\<close> in the \<^verbatim>\<open>elif\<close>;
  the model keeps that order.
\<close>

definition avg_monthly_balance_rule :: "int \<Rightarrow> rat \<Rightarrow> rat" where
  "avg_monthly_balance_rule avg_monthly_balance risk_score =
     (if avg_monthly_balance < 2000 then risk_score + 10/100
      else if avg_monthly_balance < 1000 then risk_score + 15/100
      else risk_score)"

definition premium_rule :: "int \<Rightarrow> int \<Rightarrow> rat \<Rightarrow> rat" where
  "premium_rule premium_amount avg_monthly_balance risk_score =
     (if of_int premium_amount > of_int avg_monthly_balance * (3/10 :: rat)
      then risk_score + 8/100 else risk_score)"

text \<open>The value of \<^verbatim>\<open>risk_score\<close> at line 135, before the cap.\<close>

definition risk_score ::
  "int \<Rightarrow> int \<Rightarrow> int \<Rightarrow> string \<Rightarrow> int \<Rightarrow> int \<Rightarrow> int \<Rightarrow> int \<Rightarrow> int \<Rightarrow> rat" where
  "risk_score months_since_claim total_claims age region claim_denial_rate
      clinic_visits distance_to_clinic avg_monthly_balance premium_amount =
     (let s = 0;
          s = months_since_claim_rule months_since_claim s;
          s = total_claims_rule total_claims s;
          s = age_rule age s;
          s = regional_risk_rule region s;
          s = claim_denial_rate_rule claim_denial_rate s;
          s = clinic_visits_rule clinic_visits s;
          s = distance_to_clinic_rule distance_to_clinic s;
          s = avg_monthly_balance_rule avg_monthly_balance s;
          s = premium_rule premium_amount avg_monthly_balance s
      in s)"

definition calculate_dropout_risk ::
  "int \<Rightarrow> int \<Rightarrow> int \<Rightarrow> string \<Rightarrow> int \<Rightarrow> int \<Rightarrow> int \<Rightarrow> int \<Rightarrow> int \<Rightarrow> rat" where
  "calculate_dropout_risk months_since_claim total_claims age region claim_denial_rate
      clinic_visits distance_to_clinic avg_monthly_balance premium_amount =
     min (risk_score months_since_claim total_claims age region claim_denial_rate
            clinic_visits distance_to_clinic avg_monthly_balance premium_amount)
         (95/100)"

subsection \<open>The form (lines 51 to 71)\<close>

text \<open>
  The bounds \<^verbatim>\<open>min_value\<close> and \<^verbatim>\<open>max_value\<close> of the numeric widgets, and the options of
  the region select box. The scorer itself checks none of them.
\<close>

definition widget_ranges :: "int \<Rightarrow> int \<Rightarrow> int \<Rightarrow> int \<Rightarrow> int \<Rightarrow> int \<Rightarrow> int \<Rightarrow> int \<Rightarrow> bool" where
  "widget_ranges months_since_claim total_claims age claim_denial_rate
      clinic_visits distance_to_clinic avg_monthly_balance premium_amount =
     (0 \<le> months_since_claim \<and> months_since_claim \<le> 120
      \<and> 0 \<le> total_claims \<and> total_claims \<le> 50
      \<and> 18 \<le> age \<and> age \<le> 80
      \<and> 0 \<le> claim_denial_rate \<and> claim_denial_rate \<le> 100
      \<and> 0 \<le> clinic_visits \<and> clinic_visits \<le> 50
      \<and> 0 \<le> distance_to_clinic \<and> distance_to_clinic \<le> 200
      \<and> 0 \<le> avg_monthly_balance \<and> avg_monthly_balance \<le> 100000
      \<and> 100 \<le> premium_amount \<and> premium_amount \<le> 10000)"

definition region_options :: "string list" where
  "region_options =
     [''Lagos'', ''Enugu'', ''Kaduna'', ''Kano'', ''Abuja'', ''Jos'', ''Ibadan'', ''Port Harcourt'']"

subsection \<open>Outcome and risk level (lines 151 to 163)\<close>

record classification =
  outcome :: string
  risk_level :: string
  risk_class :: string
  color :: string

definition classify :: "rat \<Rightarrow> classification" where
  "classify dropout_percentage =
     (if dropout_percentage \<ge> 50 then
        \<lparr>outcome = ''WILL DROPOUT'',
         risk_level = (if dropout_percentage \<ge> 70 then ''HIGH RISK'' else ''MEDIUM RISK''),
         risk_class = ''high-risk'',
         color = ''#f44336''\<rparr>
      else
        \<lparr>outcome = ''WILL NOT DROPOUT'',
         risk_level = ''LOW RISK'',
         risk_class = ''low-risk'',
         color = ''#4caf50''\<rparr>)"

subsection \<open>The list of risk factors (lines 205 to 220)\<close>

text \<open>
  Each entry of the Python list is an f-string: a fixed text around the value it prints.
  A constructor stands for one such text and carries the value printed in it; the warning
  sign in front of each text and the formatting of the number are left out.
\<close>

datatype risk_factor =
    Months_without_claims int  \<comment> \<open>\<^verbatim>\<open>{months_since_claim} months without claims (TOP FACTOR)\<close>\<close>
  | No_claims_history          \<comment> \<open>\<^verbatim>\<open>No claims history\<close>\<close>
  | High_claim_frequency int   \<comment> \<open>\<^verbatim>\<open>High claim frequency ({total_claims} claims)\<close>\<close>
  | Age_risk_factor int        \<comment> \<open>\<^verbatim>\<open>Age risk factor ({age} years)\<close>\<close>
  | High_risk_region string    \<comment> \<open>\<^verbatim>\<open>High-risk region ({region})\<close>\<close>
  | High_denial_rate int       \<comment> \<open>\<^verbatim>\<open>High denial rate ({claim_denial_rate}%)\<close>\<close>
  | Low_balance int            \<comment> \<open>\<^verbatim>\<open>Low balance ({avg_monthly_balance:,})\<close>\<close>

text \<open>The list starts empty and each \<^verbatim>\<open>if\<close> appends to it, in the order of the source.\<close>

definition risk_factors :: "int \<Rightarrow> int \<Rightarrow> int \<Rightarrow> string \<Rightarrow> int \<Rightarrow> int \<Rightarrow> risk_factor list" where
  "risk_factors months_since_claim total_claims age region claim_denial_rate avg_monthly_balance =
     (let fs = [];
          fs = (if months_since_claim \<ge> 6
                then fs @ [Months_without_claims months_since_claim] else fs);
          fs = (if total_claims = 0 then fs @ [No_claims_history]
                else if total_claims > 5 then fs @ [High_claim_frequency total_claims]
                else fs);
          fs = (if age < 25 \<or> age > 55 then fs @ [Age_risk_factor age] else fs);
          fs = (if region \<in> set [''Lagos'', ''Enugu'', ''Kaduna'']
                then fs @ [High_risk_region region] else fs);
          fs = (if claim_denial_rate > 15 then fs @ [High_denial_rate claim_denial_rate] else fs);
          fs = (if avg_monthly_balance < 2000 then fs @ [Low_balance avg_monthly_balance] else fs)
      in fs)"

subsection \<open>The button handler (lines 142 to 256)\<close>

text \<open>
  What one run of the result column does, as the list of its effects in order: the call of
  the scorer with its nine arguments, and the Streamlit calls that render something.
  The static texts of the recommendation blocks and of the prompt are constructors.
\<close>

datatype effect =
    Call_calculate_dropout_risk int int int string int int int int int
  | Markdown_prediction_box classification rat string
      \<comment> \<open>the result box: classification, \<^verbatim>\<open>dropout_percentage\<close>, \<^verbatim>\<open>beneficiary_id\<close>\<close>
  | Plotly_chart rat string
      \<comment> \<open>the gauge: its value \<^verbatim>\<open>dropout_percentage\<close> and its bar colour\<close>
  | Markdown_key_risk_factors
  | Markdown_factor risk_factor
  | Success_no_major_risk_factors
  | Markdown_recommendations
  | Error_urgent_action_required
  | Warning_proactive_intervention
  | Success_standard_monitoring
  | Warning_enter_beneficiary_id
  | Info_example

text \<open>Lines 222 to 226: one line per factor, or the single marker when the list is empty.\<close>

definition show_risk_factors :: "risk_factor list \<Rightarrow> effect list" where
  "show_risk_factors fs =
     (if fs \<noteq> [] then map Markdown_factor fs else [Success_no_major_risk_factors])"

text \<open>Lines 230 to 252.\<close>

definition recommendation :: "rat \<Rightarrow> effect" where
  "recommendation dropout_percentage =
     (if dropout_percentage \<ge> 70 then Error_urgent_action_required
      else if dropout_percentage \<ge> 50 then Warning_proactive_intervention
      else Success_standard_monitoring)"

text \<open>
  The body of \<^verbatim>\<open>if beneficiary_id:\<close> (lines 145 to 252). The arguments are the global
  variables the form has set; \<^verbatim>\<open>gender\<close> is one of them.
\<close>

definition evaluate ::
  "string \<Rightarrow> int \<Rightarrow> string \<Rightarrow> string \<Rightarrow> int \<Rightarrow> int \<Rightarrow> int \<Rightarrow> int \<Rightarrow> int \<Rightarrow> int \<Rightarrow> int \<Rightarrow> effect list" where
  "evaluate beneficiary_id age gender region months_since_claim total_claims claim_denial_rate
      clinic_visits distance_to_clinic avg_monthly_balance premium_amount =
     (let dropout_prob = calculate_dropout_risk months_since_claim total_claims age region
            claim_denial_rate clinic_visits distance_to_clinic avg_monthly_balance premium_amount;
          dropout_percentage = dropout_prob * 100;
          c = classify dropout_percentage;
          fs = risk_factors months_since_claim total_claims age region claim_denial_rate
            avg_monthly_balance
      in [Call_calculate_dropout_risk months_since_claim total_claims age region
            claim_denial_rate clinic_visits distance_to_clinic avg_monthly_balance premium_amount,
          Markdown_prediction_box c dropout_percentage beneficiary_id,
          Plotly_chart dropout_percentage (color c),
          Markdown_key_risk_factors]
         @ show_risk_factors fs
         @ [Markdown_recommendations, recommendation dropout_percentage])"

text \<open>
  The result column: nothing when the button was not pressed in this run; the evaluation
  when the identifier is a non-empty string (Python's truth value of a string); the
  prompt otherwise.
\<close>

definition prediction_results ::
  "bool \<Rightarrow> string \<Rightarrow> int \<Rightarrow> string \<Rightarrow> string \<Rightarrow> int \<Rightarrow> int \<Rightarrow> int \<Rightarrow> int \<Rightarrow> int \<Rightarrow> int \<Rightarrow> int
   \<Rightarrow> effect list" where
  "prediction_results button beneficiary_id age gender region months_since_claim total_claims
      claim_denial_rate clinic_visits distance_to_clinic avg_monthly_balance premium_amount =
     (if button then
        (if beneficiary_id \<noteq> [] then
           evaluate beneficiary_id age gender region months_since_claim total_claims
             claim_denial_rate clinic_visits distance_to_clinic avg_monthly_balance premium_amount
         else [Warning_enter_beneficiary_id, Info_example])
      else [])"

text \<open>The calls of the scorer among the effects of a run.\<close>

fun is_scorer_call :: "effect \<Rightarrow> bool" where
  "is_scorer_call (Call_calculate_dropout_risk _ _ _ _ _ _ _ _ _) = True"
| "is_scorer_call _ = False"

definition scorer_calls :: "effect list \<Rightarrow> effect list" where
  "scorer_calls es = filter is_scorer_call es"

subsection \<open>The explainer in the words of the specification\<close>

text \<open>
  The specification gives, for each kind of factor, the condition under which it is listed.
  This predicate is written from those sentences, not from the code, and is compared with
  \<^const>\<open>risk_factors\<close> below.
\<close>

definition spec_triggers :: "int \<Rightarrow> int \<Rightarrow> int \<Rightarrow> string \<Rightarrow> int \<Rightarrow> int \<Rightarrow> risk_factor \<Rightarrow> bool" where
  "spec_triggers months_since_claim total_claims age region claim_denial_rate avg_monthly_balance f =
     (case f of
        Months_without_claims _ \<Rightarrow> months_since_claim \<ge> 6
      | No_claims_history \<Rightarrow> total_claims = 0
      | High_claim_frequency _ \<Rightarrow> total_claims \<noteq> 0 \<and> total_claims > 5
      | Age_risk_factor _ \<Rightarrow> age < 25 \<or> age > 55
      | High_risk_region _ \<Rightarrow> region = ''Lagos'' \<or> region = ''Enugu'' \<or> region = ''Kaduna''
      | High_denial_rate _ \<Rightarrow> claim_denial_rate > 15
      | Low_balance _ \<Rightarrow> avg_monthly_balance < 2000)"

section \<open>Properties\<close>

subsection \<open>What each rule adds\<close>

lemmas rule_defs = months_since_claim_rule_def total_claims_rule_def age_rule_def
  regional_risk_rule_def claim_denial_rate_rule_def clinic_visits_rule_def
  distance_to_clinic_rule_def avg_monthly_balance_rule_def premium_rule_def

lemma regional_risk_simps:
  "regional_risk ''Lagos'' = Some (18/100)"
  "regional_risk ''Port Harcourt'' = Some (4/100)"
  by (simp_all add: regional_risk_def)

lemma regional_risk_cases:
  "regional_risk region \<in> {None, Some (18/100), Some (16/100), Some (14/100), Some (12/100),
      Some (10/100), Some (8/100), Some (6/100), Some (4/100)}"
  by (simp add: regional_risk_def)

lemma regional_risk_rule_bounds:
  "s + 4/100 \<le> regional_risk_rule region s" "regional_risk_rule region s \<le> s + 18/100"
  using regional_risk_cases [of region]
  by (auto simp add: regional_risk_rule_def)

lemma months_rule_ge: "s \<le> months_since_claim_rule m s"
  by (simp add: months_since_claim_rule_def)
lemma total_claims_rule_ge: "s \<le> total_claims_rule m s"
  by (simp add: total_claims_rule_def)
lemma age_rule_ge: "s \<le> age_rule m s"
  by (simp add: age_rule_def)
lemma denial_rule_ge: "s \<le> claim_denial_rate_rule m s"
  by (simp add: claim_denial_rate_rule_def)
lemma visits_rule_ge: "s \<le> clinic_visits_rule m s"
  by (simp add: clinic_visits_rule_def)
lemma distance_rule_ge: "s \<le> distance_to_clinic_rule m s"
  by (simp add: distance_to_clinic_rule_def)
lemma balance_rule_ge: "s \<le> avg_monthly_balance_rule m s"
  by (simp add: avg_monthly_balance_rule_def)
lemma premium_rule_ge: "s \<le> premium_rule p b s"
  by (simp add: premium_rule_def)

lemma rule_add:
  "months_since_claim_rule m s = s + months_since_claim_rule m 0"
  "total_claims_rule t s = s + total_claims_rule t 0"
  "age_rule a s = s + age_rule a 0"
  "regional_risk_rule r s = s + regional_risk_rule r 0"
  "claim_denial_rate_rule d s = s + claim_denial_rate_rule d 0"
  "clinic_visits_rule c s = s + clinic_visits_rule c 0"
  "distance_to_clinic_rule k s = s + distance_to_clinic_rule k 0"
  "avg_monthly_balance_rule b s = s + avg_monthly_balance_rule b 0"
  "premium_rule p b s = s + premium_rule p b 0"
  by (simp_all add: rule_defs)

lemma risk_score_sum:
  "risk_score m t a r d c k b p =
     months_since_claim_rule m 0 + total_claims_rule t 0 + age_rule a 0 + regional_risk_rule r 0
     + claim_denial_rate_rule d 0 + clinic_visits_rule c 0 + distance_to_clinic_rule k 0
     + avg_monthly_balance_rule b 0 + premium_rule p b 0"
  unfolding risk_score_def Let_def
  apply (subst rule_add(9))
  apply (subst rule_add(8))
  apply (subst rule_add(7))
  apply (subst rule_add(6))
  apply (subst rule_add(5))
  apply (subst rule_add(4))
  apply (subst rule_add(3))
  apply (subst rule_add(2))
  apply simp
  done

text \<open>The region always adds at least 0.04 and no rule subtracts, so the sum is at least 0.04.\<close>

lemma risk_score_floor:
  "4/100 \<le> risk_score m t a r d c k b p"
proof -
  let ?s1 = "months_since_claim_rule m 0"
  let ?s2 = "total_claims_rule t ?s1"
  let ?s3 = "age_rule a ?s2"
  let ?s4 = "regional_risk_rule r ?s3"
  let ?s5 = "claim_denial_rate_rule d ?s4"
  let ?s6 = "clinic_visits_rule c ?s5"
  let ?s7 = "distance_to_clinic_rule k ?s6"
  let ?s8 = "avg_monthly_balance_rule b ?s7"
  have "0 \<le> ?s1" by (rule months_rule_ge)
  also have "?s1 \<le> ?s2" by (rule total_claims_rule_ge)
  also have "?s2 \<le> ?s3" by (rule age_rule_ge)
  finally have "4/100 \<le> ?s3 + 4/100" by simp
  also have "\<dots> \<le> ?s4" by (rule regional_risk_rule_bounds)
  also have "?s4 \<le> ?s5" by (rule denial_rule_ge)
  also have "?s5 \<le> ?s6" by (rule visits_rule_ge)
  also have "?s6 \<le> ?s7" by (rule distance_rule_ge)
  also have "?s7 \<le> ?s8" by (rule balance_rule_ge)
  also have "?s8 \<le> premium_rule p b ?s8" by (rule premium_rule_ge)
  finally show ?thesis by (simp add: risk_score_def)
qed

lemma months_rule_mono:
  "m \<le> m' \<Longrightarrow> months_since_claim_rule m 0 \<le> months_since_claim_rule m' 0"
  by (simp add: months_since_claim_rule_def)

subsection \<open>The balance rule\<close>

text \<open>
  C1: the specification gives the tighter bound precedence, so that a balance of 500 adds 0.15.
  The code tests \<^verbatim>\<open>< 2000\<close> first: at 500 the rule adds 0.10 and not 0.15, whatever the
  running score; at 1500 it adds 0.10 and at 3000 nothing, as the specification says. On a whole
  profile with balance 500 in which only the region (Port Harcourt, 0.04) and the balance
  rule fire, the function returns 0.14, where the rule of the specification would give 0.19.
\<close>

theorem balance_500_adds_010:
  "avg_monthly_balance_rule 500 s = s + 10/100
   \<and> avg_monthly_balance_rule 500 s \<noteq> s + 15/100
   \<and> avg_monthly_balance_rule 1500 s = s + 10/100
   \<and> avg_monthly_balance_rule 3000 s = s
   \<and> calculate_dropout_risk 1 2 35 ''Port Harcourt'' 5 3 10 500 100 = 14/100"
  by (simp add: avg_monthly_balance_rule_def calculate_dropout_risk_def risk_score_def
      months_since_claim_rule_def total_claims_rule_def age_rule_def regional_risk_rule_def
      regional_risk_simps claim_denial_rate_rule_def clinic_visits_rule_def
      distance_to_clinic_rule_def premium_rule_def)

subsection \<open>Bounds of the result\<close>

text \<open>
  C2: for every profile whose eight numeric fields lie in the ranges of the form (months
  in 0..120, claims in 0..50, age in 18..80, denial rate in 0..100, visits in 0..50,
  distance in 0..200, balance in 0..100000, premium in 100..10000) and whose region is any
  string, the value returned by \<^const>\<open>calculate_dropout_risk\<close> lies between 0 and 0.95.
\<close>

theorem dropout_probability_bounds:
  assumes "widget_ranges months_since_claim total_claims age claim_denial_rate
      clinic_visits distance_to_clinic avg_monthly_balance premium_amount"
  shows "0 \<le> calculate_dropout_risk months_since_claim total_claims age region claim_denial_rate
            clinic_visits distance_to_clinic avg_monthly_balance premium_amount
       \<and> calculate_dropout_risk months_since_claim total_claims age region claim_denial_rate
            clinic_visits distance_to_clinic avg_monthly_balance premium_amount \<le> 95/100"
proof -
  have "0 \<le> risk_score months_since_claim total_claims age region claim_denial_rate
            clinic_visits distance_to_clinic avg_monthly_balance premium_amount"
    using risk_score_floor [of months_since_claim total_claims age region claim_denial_rate
            clinic_visits distance_to_clinic avg_monthly_balance premium_amount] by simp
  then show ?thesis by (simp add: calculate_dropout_risk_def)
qed

theorem dropout_probability_bounds_witness:
  "widget_ranges 6 2 35 10 3 15 5000 1500
   \<and> 0 \<le> calculate_dropout_risk 6 2 35 ''Lagos'' 10 3 15 5000 1500
   \<and> calculate_dropout_risk 6 2 35 ''Lagos'' 10 3 15 5000 1500 \<le> 95/100"
proof -
  have h: "widget_ranges 6 2 35 10 3 15 5000 1500" by (simp add: widget_ranges_def)
  show ?thesis using h dropout_probability_bounds [OF h, of "''Lagos''"] by simp
qed

text \<open>
  C4: when every rule takes its largest branch (months at least 12, more than 10 claims,
  age above 65, region Lagos, denial rate above 25, fewer than 2 visits, distance above 50,
  balance below 1000, premium above 0.3 times the balance) the sum before the cap exceeds
  0.95 and the function returns exactly 0.95.
\<close>

theorem cap_reached:
  assumes "months_since_claim \<ge> 12" and "total_claims > 10" and "age > 65"
    and "region = ''Lagos''" and "claim_denial_rate > 25" and "clinic_visits < 2"
    and "distance_to_clinic > 50" and "avg_monthly_balance < 1000"
    and "of_int premium_amount > (3/10 :: rat) * of_int avg_monthly_balance"
  shows "risk_score months_since_claim total_claims age region claim_denial_rate
            clinic_visits distance_to_clinic avg_monthly_balance premium_amount > 95/100
       \<and> calculate_dropout_risk months_since_claim total_claims age region claim_denial_rate
            clinic_visits distance_to_clinic avg_monthly_balance premium_amount = 95/100"
proof -
  have "risk_score months_since_claim total_claims age region claim_denial_rate
            clinic_visits distance_to_clinic avg_monthly_balance premium_amount = 146/100"
    using assms by (simp add: risk_score_sum rule_defs regional_risk_simps mult.commute)
  then show ?thesis by (simp add: calculate_dropout_risk_def)
qed

theorem cap_reached_witness:
  "(12::int) \<ge> 12 \<and> (11::int) > 10 \<and> (66::int) > 65 \<and> ''Lagos'' = ''Lagos'' \<and> (26::int) > 25
   \<and> (1::int) < 2 \<and> (51::int) > 50 \<and> (999::int) < 1000
   \<and> of_int 300 > (3/10 :: rat) * of_int 999
   \<and> risk_score 12 11 66 ''Lagos'' 26 1 51 999 300 > 95/100
   \<and> calculate_dropout_risk 12 11 66 ''Lagos'' 26 1 51 999 300 = 95/100"
  using cap_reached [of 12 11 66 "''Lagos''" 26 1 51 999 300] by simp

text \<open>
  C5, as stated: some profile within the ranges of the form returns exactly 0. No profile
  does, since the region lookup adds a positive weight to every score.
\<close>

theorem zero_score_counterexample:
  "\<not> (\<exists>months_since_claim total_claims age region claim_denial_rate clinic_visits
         distance_to_clinic avg_monthly_balance premium_amount.
        widget_ranges months_since_claim total_claims age claim_denial_rate
          clinic_visits distance_to_clinic avg_monthly_balance premium_amount
        \<and> calculate_dropout_risk months_since_claim total_claims age region claim_denial_rate
            clinic_visits distance_to_clinic avg_monthly_balance premium_amount = 0)"
proof
  assume "\<exists>months_since_claim total_claims age region claim_denial_rate clinic_visits
         distance_to_clinic avg_monthly_balance premium_amount.
        widget_ranges months_since_claim total_claims age claim_denial_rate
          clinic_visits distance_to_clinic avg_monthly_balance premium_amount
        \<and> calculate_dropout_risk months_since_claim total_claims age region claim_denial_rate
            clinic_visits distance_to_clinic avg_monthly_balance premium_amount = 0"
  then obtain m t a r d c k b p where z: "calculate_dropout_risk m t a r d c k b p = 0"
    by blast
  have "4/100 \<le> risk_score m t a r d c k b p" by (rule risk_score_floor)
  then have "4/100 \<le> calculate_dropout_risk m t a r d c k b p"
    by (simp add: calculate_dropout_risk_def)
  with z show False by simp
qed

text \<open>
  C5, amended: the score has a floor of 0.04, the smallest regional weight. No profile
  returns less than 0.04, and there is a profile within the ranges of the form, with a
  region the form offers, on which every conditional rule adds nothing and the function
  returns exactly 0.04.
\<close>

theorem score_floor_is_004:
  "(\<forall>months_since_claim total_claims age region claim_denial_rate clinic_visits
       distance_to_clinic avg_monthly_balance premium_amount.
      calculate_dropout_risk months_since_claim total_claims age region claim_denial_rate
        clinic_visits distance_to_clinic avg_monthly_balance premium_amount \<ge> 4/100)
   \<and> (\<exists>months_since_claim total_claims age region claim_denial_rate clinic_visits
       distance_to_clinic avg_monthly_balance premium_amount.
      widget_ranges months_since_claim total_claims age claim_denial_rate
          clinic_visits distance_to_clinic avg_monthly_balance premium_amount
      \<and> region \<in> set region_options
      \<and> months_since_claim_rule months_since_claim 0 = 0
      \<and> total_claims_rule total_claims 0 = 0
      \<and> age_rule age 0 = 0
      \<and> claim_denial_rate_rule claim_denial_rate 0 = 0
      \<and> clinic_visits_rule clinic_visits 0 = 0
      \<and> distance_to_clinic_rule distance_to_clinic 0 = 0
      \<and> avg_monthly_balance_rule avg_monthly_balance 0 = 0
      \<and> premium_rule premium_amount avg_monthly_balance 0 = 0
      \<and> calculate_dropout_risk months_since_claim total_claims age region claim_denial_rate
        clinic_visits distance_to_clinic avg_monthly_balance premium_amount = 4/100)"
proof (intro conjI allI)
  fix m t a r d c k b p
  have "4/100 \<le> risk_score m t a r d c k b p" by (rule risk_score_floor)
  then show "calculate_dropout_risk m t a r d c k b p \<ge> 4/100"
    by (simp add: calculate_dropout_risk_def)
next
  have "widget_ranges 1 2 35 5 3 10 5000 1500
      \<and> ''Port Harcourt'' \<in> set region_options
      \<and> months_since_claim_rule 1 0 = 0
      \<and> total_claims_rule 2 0 = 0
      \<and> age_rule 35 0 = 0
      \<and> claim_denial_rate_rule 5 0 = 0
      \<and> clinic_visits_rule 3 0 = 0
      \<and> distance_to_clinic_rule 10 0 = 0
      \<and> avg_monthly_balance_rule 5000 0 = 0
      \<and> premium_rule 1500 5000 0 = 0
      \<and> calculate_dropout_risk 1 2 35 ''Port Harcourt'' 5 3 10 5000 1500 = 4/100"
    by (simp add: widget_ranges_def region_options_def calculate_dropout_risk_def
        risk_score_sum rule_defs regional_risk_simps)
  then show "\<exists>months_since_claim total_claims age region claim_denial_rate clinic_visits
       distance_to_clinic avg_monthly_balance premium_amount.
      widget_ranges months_since_claim total_claims age claim_denial_rate
          clinic_visits distance_to_clinic avg_monthly_balance premium_amount
      \<and> region \<in> set region_options
      \<and> months_since_claim_rule months_since_claim 0 = 0
      \<and> total_claims_rule total_claims 0 = 0
      \<and> age_rule age 0 = 0
      \<and> claim_denial_rate_rule claim_denial_rate 0 = 0
      \<and> clinic_visits_rule clinic_visits 0 = 0
      \<and> distance_to_clinic_rule distance_to_clinic 0 = 0
      \<and> avg_monthly_balance_rule avg_monthly_balance 0 = 0
      \<and> premium_rule premium_amount avg_monthly_balance 0 = 0
      \<and> calculate_dropout_risk months_since_claim total_claims age region claim_denial_rate
        clinic_visits distance_to_clinic avg_monthly_balance premium_amount = 4/100"
    by blast
qed

subsection \<open>Monotonicity in the months since the last claim\<close>

text \<open>
  C6: with all other fields fixed, a larger \<^verbatim>\<open>months_since_claim\<close> never gives a smaller
  result of \<^const>\<open>calculate_dropout_risk\<close>; in particular not across the tier boundaries
  2, 3, 6 and 12.
\<close>

theorem months_monotone:
  assumes "months_since_claim \<le> months_since_claim'"
  shows "calculate_dropout_risk months_since_claim total_claims age region claim_denial_rate
            clinic_visits distance_to_clinic avg_monthly_balance premium_amount
       \<le> calculate_dropout_risk months_since_claim' total_claims age region claim_denial_rate
            clinic_visits distance_to_clinic avg_monthly_balance premium_amount"
proof -
  have "risk_score months_since_claim total_claims age region claim_denial_rate
            clinic_visits distance_to_clinic avg_monthly_balance premium_amount
       \<le> risk_score months_since_claim' total_claims age region claim_denial_rate
            clinic_visits distance_to_clinic avg_monthly_balance premium_amount"
    using months_rule_mono [OF assms] by (simp add: risk_score_sum)
  then show ?thesis
    unfolding calculate_dropout_risk_def by (rule min.mono) simp
qed

theorem months_monotone_witness:
  "(2::int) \<le> 3 \<and> (3::int) \<le> 6 \<and> (6::int) \<le> 12
   \<and> calculate_dropout_risk 2 2 35 ''Jos'' 10 3 15 5000 1500
      \<le> calculate_dropout_risk 3 2 35 ''Jos'' 10 3 15 5000 1500
   \<and> calculate_dropout_risk 3 2 35 ''Jos'' 10 3 15 5000 1500
      \<le> calculate_dropout_risk 6 2 35 ''Jos'' 10 3 15 5000 1500
   \<and> calculate_dropout_risk 6 2 35 ''Jos'' 10 3 15 5000 1500
      \<le> calculate_dropout_risk 12 2 35 ''Jos'' 10 3 15 5000 1500"
  using months_monotone [of 2 3 2 35 "''Jos''" 10 3 15 5000 1500]
    months_monotone [of 3 6 2 35 "''Jos''" 10 3 15 5000 1500]
    months_monotone [of 6 12 2 35 "''Jos''" 10 3 15 5000 1500]
  by simp

subsection \<open>Outcome and risk level\<close>

text \<open>
  C3: with \<^verbatim>\<open>dropout_percentage = dropout_prob * 100\<close>, for every \<^verbatim>\<open>dropout_prob\<close> (so for
  every value the scorer returns): the outcome is WILL DROPOUT exactly when the
  percentage is at least 50 and WILL NOT DROPOUT exactly when it is below 50; the risk
  level is HIGH RISK exactly when the percentage is at least 70, MEDIUM RISK exactly when
  it is at least 50 and below 70, and LOW RISK exactly when it is below 50.
\<close>

theorem classifier_thresholds:
  "(outcome (classify (dropout_prob * 100)) = ''WILL DROPOUT'') = (dropout_prob * 100 \<ge> 50)
   \<and> (outcome (classify (dropout_prob * 100)) = ''WILL NOT DROPOUT'') = (dropout_prob * 100 < 50)
   \<and> (risk_level (classify (dropout_prob * 100)) = ''HIGH RISK'') = (dropout_prob * 100 \<ge> 70)
   \<and> (risk_level (classify (dropout_prob * 100)) = ''MEDIUM RISK'')
        = (50 \<le> dropout_prob * 100 \<and> dropout_prob * 100 < 70)
   \<and> (risk_level (classify (dropout_prob * 100)) = ''LOW RISK'') = (dropout_prob * 100 < 50)"
  by (simp add: classify_def)

subsection \<open>An example from end to end\<close>

text \<open>
  C7: for months 12, claims 0, age 35, region Lagos, denial rate 10, visits 3, distance 15,
  balance 5000 and premium 1500 the rules add 0.45, 0.15, 0, 0.18, 0, 0, 0, 0 and 0; the
  result is 0.78 and the percentage 78; the outcome is WILL DROPOUT and the risk level HIGH
  RISK; the factors listed are the months factor, "no claims history" and "high-risk
  region".
\<close>

theorem end_to_end_example_1:
  "months_since_claim_rule 12 0 = 45/100
   \<and> total_claims_rule 0 0 = 15/100
   \<and> age_rule 35 0 = 0
   \<and> regional_risk_rule ''Lagos'' 0 = 18/100
   \<and> claim_denial_rate_rule 10 0 = 0
   \<and> clinic_visits_rule 3 0 = 0
   \<and> distance_to_clinic_rule 15 0 = 0
   \<and> avg_monthly_balance_rule 5000 0 = 0
   \<and> premium_rule 1500 5000 0 = 0
   \<and> calculate_dropout_risk 12 0 35 ''Lagos'' 10 3 15 5000 1500 = 78/100
   \<and> calculate_dropout_risk 12 0 35 ''Lagos'' 10 3 15 5000 1500 * 100 = 78
   \<and> outcome (classify (calculate_dropout_risk 12 0 35 ''Lagos'' 10 3 15 5000 1500 * 100))
        = ''WILL DROPOUT''
   \<and> risk_level (classify (calculate_dropout_risk 12 0 35 ''Lagos'' 10 3 15 5000 1500 * 100))
        = ''HIGH RISK''
   \<and> risk_factors 12 0 35 ''Lagos'' 10 5000
        = [Months_without_claims 12, No_claims_history, High_risk_region ''Lagos'']"
proof -
  have rules: "months_since_claim_rule 12 0 = 45/100" "total_claims_rule 0 0 = 15/100"
    "age_rule 35 0 = 0" "regional_risk_rule ''Lagos'' 0 = 18/100"
    "claim_denial_rate_rule 10 0 = 0" "clinic_visits_rule 3 0 = 0"
    "distance_to_clinic_rule 15 0 = 0" "avg_monthly_balance_rule 5000 0 = 0"
    "premium_rule 1500 5000 0 = 0"
    by (simp_all add: rule_defs regional_risk_simps)
  have score: "calculate_dropout_risk 12 0 35 ''Lagos'' 10 3 15 5000 1500 = 78/100"
    by (simp add: calculate_dropout_risk_def risk_score_sum rules)
  have factors: "risk_factors 12 0 35 ''Lagos'' 10 5000
        = [Months_without_claims 12, No_claims_history, High_risk_region ''Lagos'']"
    by (simp add: risk_factors_def)
  show ?thesis
    by (simp add: rules score factors classify_def)
qed

subsection \<open>The list of risk factors\<close>

text \<open>
  C8: the list of risk factors holds, in the order of evaluation, exactly the factors
  whose condition in the specification holds: the months factor when the months are at
  least 6; "no claims history" when there are no claims, else "high claim frequency" when
  there are more than 5; the age factor when the age is below 25 or above 55; "high-risk
  region" for Lagos, Enugu and Kaduna; "high denial rate" above 15; "low balance" below
  2000. When none of the conditions holds the single marker "no major risk factors
  identified" is shown, and otherwise one line for each factor of the list.
\<close>

theorem risk_factors_exact:
  "risk_factors months_since_claim total_claims age region claim_denial_rate avg_monthly_balance
     = filter (spec_triggers months_since_claim total_claims age region claim_denial_rate
                 avg_monthly_balance)
         [Months_without_claims months_since_claim, No_claims_history,
          High_claim_frequency total_claims, Age_risk_factor age, High_risk_region region,
          High_denial_rate claim_denial_rate, Low_balance avg_monthly_balance]
   \<and> show_risk_factors
       (risk_factors months_since_claim total_claims age region claim_denial_rate
          avg_monthly_balance)
     = (if months_since_claim \<ge> 6 \<or> total_claims = 0 \<or> total_claims > 5 \<or> age < 25 \<or> age > 55
           \<or> region = ''Lagos'' \<or> region = ''Enugu'' \<or> region = ''Kaduna''
           \<or> claim_denial_rate > 15 \<or> avg_monthly_balance < 2000
        then map Markdown_factor
          (risk_factors months_since_claim total_claims age region claim_denial_rate
             avg_monthly_balance)
        else [Success_no_major_risk_factors])"
proof -
  have eq: "risk_factors months_since_claim total_claims age region claim_denial_rate
        avg_monthly_balance
     = filter (spec_triggers months_since_claim total_claims age region claim_denial_rate
                 avg_monthly_balance)
         [Months_without_claims months_since_claim, No_claims_history,
          High_claim_frequency total_claims, Age_risk_factor age, High_risk_region region,
          High_denial_rate claim_denial_rate, Low_balance avg_monthly_balance]"
    by (simp add: risk_factors_def spec_triggers_def)
  have "(risk_factors months_since_claim total_claims age region claim_denial_rate
          avg_monthly_balance \<noteq> [])
      = (months_since_claim \<ge> 6 \<or> total_claims = 0 \<or> total_claims > 5 \<or> age < 25 \<or> age > 55
           \<or> region = ''Lagos'' \<or> region = ''Enugu'' \<or> region = ''Kaduna''
           \<or> claim_denial_rate > 15 \<or> avg_monthly_balance < 2000)"
    unfolding eq by (auto simp add: spec_triggers_def filter_empty_conv)
  then show ?thesis using eq by (simp add: show_risk_factors_def)
qed

subsection \<open>The guard on the beneficiary identifier\<close>

text \<open>
  C9: in a run in which the button was pressed, an empty identifier gives the prompt and
  nothing else: the scorer is not called and no result is rendered. A non-empty identifier
  gives one call of the scorer followed by the complete result: the result box, the gauge,
  the risk factors and the recommendation.
\<close>

theorem beneficiary_id_guard:
  "prediction_results True [] age gender region months_since_claim total_claims
      claim_denial_rate clinic_visits distance_to_clinic avg_monthly_balance premium_amount
     = [Warning_enter_beneficiary_id, Info_example]
   \<and> scorer_calls
       (prediction_results True [] age gender region months_since_claim total_claims
          claim_denial_rate clinic_visits distance_to_clinic avg_monthly_balance premium_amount)
     = []
   \<and> prediction_results True (ch # rest) age gender region months_since_claim total_claims
      claim_denial_rate clinic_visits distance_to_clinic avg_monthly_balance premium_amount
     = [Call_calculate_dropout_risk months_since_claim total_claims age region
          claim_denial_rate clinic_visits distance_to_clinic avg_monthly_balance premium_amount,
        Markdown_prediction_box
          (classify (calculate_dropout_risk months_since_claim total_claims age region
             claim_denial_rate clinic_visits distance_to_clinic avg_monthly_balance
             premium_amount * 100))
          (calculate_dropout_risk months_since_claim total_claims age region
             claim_denial_rate clinic_visits distance_to_clinic avg_monthly_balance
             premium_amount * 100)
          (ch # rest),
        Plotly_chart
          (calculate_dropout_risk months_since_claim total_claims age region
             claim_denial_rate clinic_visits distance_to_clinic avg_monthly_balance
             premium_amount * 100)
          (color (classify (calculate_dropout_risk months_since_claim total_claims age region
             claim_denial_rate clinic_visits distance_to_clinic avg_monthly_balance
             premium_amount * 100))),
        Markdown_key_risk_factors]
       @ show_risk_factors
           (risk_factors months_since_claim total_claims age region claim_denial_rate
              avg_monthly_balance)
       @ [Markdown_recommendations,
          recommendation (calculate_dropout_risk months_since_claim total_claims age region
             claim_denial_rate clinic_visits distance_to_clinic avg_monthly_balance
             premium_amount * 100)]
   \<and> scorer_calls
       (prediction_results True (ch # rest) age gender region months_since_claim total_claims
          claim_denial_rate clinic_visits distance_to_clinic avg_monthly_balance premium_amount)
     = [Call_calculate_dropout_risk months_since_claim total_claims age region
          claim_denial_rate clinic_visits distance_to_clinic avg_monthly_balance premium_amount]"
proof -
  have no_call: "scorer_calls (show_risk_factors fs) = []" for fs
    by (induction fs) (simp_all add: scorer_calls_def show_risk_factors_def)
  have no_call_rec: "\<not> is_scorer_call (recommendation x)" for x
    by (simp add: recommendation_def)
  have calls: "scorer_calls (evaluate (ch # rest) age gender region months_since_claim
      total_claims claim_denial_rate clinic_visits distance_to_clinic avg_monthly_balance
      premium_amount)
     = [Call_calculate_dropout_risk months_since_claim total_claims age region
          claim_denial_rate clinic_visits distance_to_clinic avg_monthly_balance premium_amount]"
    using no_call no_call_rec
    by (simp add: evaluate_def Let_def scorer_calls_def)
  show ?thesis
    using calls by (simp add: prediction_results_def scorer_calls_def evaluate_def Let_def)
qed

subsection \<open>The gender field\<close>

text \<open>
  C10: two runs that differ only in the gender entered have the same effects: the same
  call of the scorer with the same arguments, and the same result box, gauge, risk factors
  and recommendation.
\<close>

theorem gender_noninterference:
  "prediction_results button beneficiary_id age gender region months_since_claim total_claims
      claim_denial_rate clinic_visits distance_to_clinic avg_monthly_balance premium_amount
   = prediction_results button beneficiary_id age gender' region months_since_claim total_claims
      claim_denial_rate clinic_visits distance_to_clinic avg_monthly_balance premium_amount"
  by (simp add: prediction_results_def evaluate_def)

end
